theory Spec2Isabelle
  imports
    Main
    "HOL-Library.AList"
    "HOL-Library.Sublist"
    "HOL-Library.Char_ord"
    "HOL-Library.List_Lexorder"
begin

section \<open>The world the ponzu command line tool acts on\<close>

text \<open>
  \<^verbatim>\<open>cmd/ponzu/options.go\<close> holds four functions: \<^verbatim>\<open>newProjectInDir\<close>,
  \<^verbatim>\<open>createProjInDir\<close>, \<^verbatim>\<open>vendorCorePackages\<close> and \<^verbatim>\<open>buildPonzuServer\<close>.
  All of their behaviour is calls into the operating system: the file system, the
  standard streams and two external programs (git and the go tool). The embedding
  makes that world explicit. A \<open>world\<close> is what the functions change (the file tree,
  what was printed, which commands were run); an \<open>env\<close> is what they can only read
  (the environment variable, the flags, the typed answer, and how the system and the
  external programs respond).

  A path is the list of its components, counted from the root of the file tree.
  \<^verbatim>\<open>filepath.Join\<close> of clean operands is the concatenation of their components, so
  \<^verbatim>\<open>filepath.Join(a, "src", b)\<close> is written \<open>a @ [''src''] @ b\<close>; \<open>path_str\<close> gives
  the text of a path where the program prints it or hands it to a command. A file is its
  contents and a directory is the list of its entries by name; links, permissions and
  time stamps are not part of the tree, and a system call that fails because of them is
  a \<open>fault\<close> of the environment. What an external command writes to the standard
  streams is not recorded.
\<close>

type_synonym path = "string list"

datatype node = File string | Dir "(string \<times> node) list"

datatype errno = ENOENT | ENOTDIR | EISDIR | EEXIST | ENOTEMPTY | EINVAL | EBADF | EACCES | EIO

text \<open>
  Go's \<^verbatim>\<open>error\<close> values: \<^verbatim>\<open>*os.PathError\<close> (operation, path, cause),
  \<^verbatim>\<open>*os.LinkError\<close> (operation, old, new, cause) and the plain text errors of
  \<^verbatim>\<open>errors.New\<close>, \<^verbatim>\<open>fmt.Errorf\<close>, \<^verbatim>\<open>fmt.Scanf\<close> and \<^verbatim>\<open>os/exec\<close>.
\<close>

datatype error =
    PathError string path errno
  | LinkError string path path errno
  | ErrorString string

datatype proc_result =
    StartFailed error
  | Exited "error option" node

record world =
  fs :: node
  stdout :: "string list"
  execs :: "string list list"

record env =
  GOPATH :: path
  dev :: bool
  fork :: path
  Getwd :: "error + path"
  Scanf :: "error + string"
  fault :: "string \<Rightarrow> path \<Rightarrow> errno option"
  proc :: "string list \<Rightarrow> node \<Rightarrow> proc_result"

text \<open>
  \<open>dev\<close> and \<open>fork\<close> are the package level flag variables of the command (declared
  beside \<^verbatim>\<open>main\<close>, outside this file); \<open>fork = []\<close> is the empty string.
  \<open>Scanf\<close> is what \<^verbatim>\<open>fmt.Scanf("%s\n", &answer)\<close> yields on the standard input:
  an error or the token read. \<open>fault op p\<close> is a failure of the system call \<open>op\<close> on
  \<open>p\<close> for a reason the file tree does not show (permissions, a failing disk).
  \<open>proc argv t\<close> is what the command \<open>argv\<close> does on the tree \<open>t\<close>: it cannot be
  started, or it runs, leaves a tree behind and exits with or without an error.
\<close>

subsection \<open>Text\<close>

fun strings_Join :: "string list \<Rightarrow> string \<Rightarrow> string" where
  "strings_Join [] sep = []"
| "strings_Join [a] sep = a"
| "strings_Join (a # b # rest) sep = a @ sep @ strings_Join (b # rest) sep"

definition path_str :: "path \<Rightarrow> string" where
  "path_str p = concat (map (\<lambda>c. ''/'' @ c) p)"



fun errno_text :: "errno \<Rightarrow> string" where
  "errno_text ENOENT = ''no such file or directory''"
| "errno_text ENOTDIR = ''not a directory''"
| "errno_text EISDIR = ''is a directory''"
| "errno_text EEXIST = ''file exists''"
| "errno_text ENOTEMPTY = ''directory not empty''"
| "errno_text EINVAL = ''invalid argument''"
| "errno_text EBADF = ''bad file descriptor''"
| "errno_text EACCES = ''permission denied''"
| "errno_text EIO = ''input/output error''"

fun Error :: "error \<Rightarrow> string" where
  "Error (PathError op p e) = op @ '' '' @ path_str p @ '': '' @ errno_text e"
| "Error (LinkError op old new e) =
     op @ '' '' @ path_str old @ '' '' @ path_str new @ '': '' @ errno_text e"
| "Error (ErrorString s) = s"


definition Println :: "string \<Rightarrow> world \<Rightarrow> world" where
  "Println s w = w\<lparr>stdout := stdout w @ [s]\<rparr>"

subsection \<open>The file tree\<close>

fun walk :: "node \<Rightarrow> path \<Rightarrow> errno + node" where
  "walk n [] = Inr n"
| "walk (File s) (x # p) = Inl ENOTDIR"
| "walk (Dir es) (x # p) =
     (case map_of es x of None \<Rightarrow> Inl ENOENT | Some c \<Rightarrow> walk c p)"

text \<open>
  \<open>put p v t\<close> stores \<open>v\<close> at \<open>p\<close> when the parent of \<open>p\<close> is a directory of \<open>t\<close>,
  and \<open>del p t\<close> removes what is at \<open>p\<close> with everything below it. Both leave \<open>t\<close>
  as it is when the parent is missing.
\<close>

fun put :: "path \<Rightarrow> node \<Rightarrow> node \<Rightarrow> node" where
  "put [] v n = v"
| "put (x # p) v (File s) = File s"
| "put (x # p) v (Dir es) =
     (case map_of es x of
        Some c \<Rightarrow> Dir (AList.update x (put p v c) es)
      | None \<Rightarrow> if p = [] then Dir (AList.update x v es) else Dir es)"

fun del :: "path \<Rightarrow> node \<Rightarrow> node" where
  "del [] n = n"
| "del (x # p) (File s) = File s"
| "del (x # p) (Dir es) =
     (if p = [] then Dir (AList.delete x es)
      else case map_of es x of
        None \<Rightarrow> Dir es
      | Some c \<Rightarrow> Dir (AList.update x (del p c) es))"

fun mkdirAll :: "path \<Rightarrow> node \<Rightarrow> errno + node" where
  "mkdirAll p (File s) = Inl ENOTDIR"
| "mkdirAll [] (Dir es) = Inr (Dir es)"
| "mkdirAll (x # p) (Dir es) =
     (case mkdirAll p (case map_of es x of None \<Rightarrow> Dir [] | Some c \<Rightarrow> c) of
        Inl e \<Rightarrow> Inl e
      | Inr c \<Rightarrow> Inr (Dir (AList.update x c es)))"

fun isDir :: "node \<Rightarrow> bool" where
  "isDir (Dir es) = True"
| "isDir (File s) = False"

subsection \<open>System calls\<close>


definition os_RemoveAll :: "env \<Rightarrow> path \<Rightarrow> world \<Rightarrow> error option \<times> world" where
  "os_RemoveAll E p w =
     (case fault E ''unlinkat'' p of
        Some e \<Rightarrow> (Some (PathError ''unlinkat'' p e), w)
      | None \<Rightarrow> (None, w\<lparr>fs := del p (fs w)\<rparr>))"

definition os_MkdirAll :: "env \<Rightarrow> path \<Rightarrow> world \<Rightarrow> error option \<times> world" where
  "os_MkdirAll E p w =
     (case fault E ''mkdir'' p of
        Some e \<Rightarrow> (Some (PathError ''mkdir'' p e), w)
      | None \<Rightarrow>
         (case mkdirAll p (fs w) of
            Inl e \<Rightarrow> (Some (PathError ''mkdir'' p e), w)
          | Inr t \<Rightarrow> (None, w\<lparr>fs := t\<rparr>)))"

definition os_Mkdir :: "env \<Rightarrow> path \<Rightarrow> world \<Rightarrow> error option \<times> world" where
  "os_Mkdir E p w =
     (case fault E ''mkdir'' p of
        Some e \<Rightarrow> (Some (PathError ''mkdir'' p e), w)
      | None \<Rightarrow>
         if p = [] then (Some (PathError ''mkdir'' p EEXIST), w)
         else
          (case walk (fs w) (butlast p) of
             Inl e \<Rightarrow> (Some (PathError ''mkdir'' p e), w)
           | Inr (File s) \<Rightarrow> (Some (PathError ''mkdir'' p ENOTDIR), w)
           | Inr (Dir es) \<Rightarrow>
              (case map_of es (last p) of
                 Some c \<Rightarrow> (Some (PathError ''mkdir'' p EEXIST), w)
               | None \<Rightarrow> (None, w\<lparr>fs := put p (Dir []) (fs w)\<rparr>))))"

text \<open>
  \<^verbatim>\<open>rename(2)\<close>: the source must exist, the target's parent must be a directory, a
  directory replaces only an empty directory and a file only a file, and nothing moves
  into itself.
\<close>

definition os_Rename :: "env \<Rightarrow> path \<Rightarrow> path \<Rightarrow> world \<Rightarrow> error option \<times> world" where
  "os_Rename E old new w =
     (let fail = (\<lambda>e. (Some (LinkError ''rename'' old new e), w));
          move = (\<lambda>src. (None, w\<lparr>fs := put new src (del old (fs w))\<rparr>))
      in case fault E ''rename'' old of
        Some e \<Rightarrow> fail e
      | None \<Rightarrow>
         (case walk (fs w) old of
            Inl e \<Rightarrow> fail e
          | Inr src \<Rightarrow>
             if old = new then (None, w)
             else if prefix old new then fail EINVAL
             else
              (case walk (fs w) (butlast new) of
                 Inl e \<Rightarrow> fail e
               | Inr (File s) \<Rightarrow> fail ENOTDIR
               | Inr (Dir ps) \<Rightarrow>
                  (case walk (fs w) new of
                     Inl e \<Rightarrow> move src
                   | Inr (File s) \<Rightarrow> if isDir src then fail ENOTDIR else move src
                   | Inr (Dir []) \<Rightarrow> if isDir src then move src else fail EISDIR
                   | Inr (Dir (c # cs)) \<Rightarrow>
                      if isDir src then fail ENOTEMPTY else fail EISDIR))))"

text \<open>\<^verbatim>\<open>os.Create\<close> opens with \<^verbatim>\<open>O_RDWR|O_CREATE|O_TRUNC\<close>.\<close>

definition os_Create :: "env \<Rightarrow> path \<Rightarrow> world \<Rightarrow> (error + path) \<times> world" where
  "os_Create E p w =
     (case fault E ''open'' p of
        Some e \<Rightarrow> (Inl (PathError ''open'' p e), w)
      | None \<Rightarrow>
         if p = [] then (Inl (PathError ''open'' p EISDIR), w)
         else
          (case walk (fs w) (butlast p) of
             Inl e \<Rightarrow> (Inl (PathError ''open'' p e), w)
           | Inr (File s) \<Rightarrow> (Inl (PathError ''open'' p ENOTDIR), w)
           | Inr (Dir es) \<Rightarrow>
              (case map_of es (last p) of
                 Some (Dir cs) \<Rightarrow> (Inl (PathError ''open'' p EISDIR), w)
               | Some (File s) \<Rightarrow> (Inr p, w\<lparr>fs := put p (File []) (fs w)\<rparr>)
               | None \<Rightarrow> (Inr p, w\<lparr>fs := put p (File []) (fs w)\<rparr>))))"

definition os_Open :: "env \<Rightarrow> path \<Rightarrow> world \<Rightarrow> (error + path) \<times> world" where
  "os_Open E p w =
     (case fault E ''open'' p of
        Some e \<Rightarrow> (Inl (PathError ''open'' p e), w)
      | None \<Rightarrow>
         (case walk (fs w) p of
            Inl e \<Rightarrow> (Inl (PathError ''open'' p e), w)
          | Inr n \<Rightarrow> (Inr p, w)))"

text \<open>
  \<^verbatim>\<open>io.Copy(dst, src)\<close> reads \<open>src\<close> to its end and writes what it read through
  \<open>dst\<close>, whose offset is 0: both handles are fresh. Reading a directory fails.
\<close>

definition io_Copy :: "env \<Rightarrow> path \<Rightarrow> path \<Rightarrow> world \<Rightarrow> error option \<times> world" where
  "io_Copy E dst src w =
     (case fault E ''read'' src of
        Some e \<Rightarrow> (Some (PathError ''read'' src e), w)
      | None \<Rightarrow>
         (case walk (fs w) src of
            Inl e \<Rightarrow> (Some (PathError ''read'' src e), w)
          | Inr (Dir es) \<Rightarrow> (Some (PathError ''read'' src EISDIR), w)
          | Inr (File s) \<Rightarrow>
             (case fault E ''write'' dst of
                Some e \<Rightarrow> (Some (PathError ''write'' dst e), w)
              | None \<Rightarrow>
                 (case walk (fs w) dst of
                    Inl e \<Rightarrow> (Some (PathError ''write'' dst EBADF), w)
                  | Inr (Dir es) \<Rightarrow> (Some (PathError ''write'' dst EBADF), w)
                  | Inr (File c) \<Rightarrow>
                     (None, w\<lparr>fs := put dst (File (s @ drop (length s) c)) (fs w)\<rparr>)))))"

text \<open>\<^verbatim>\<open>ioutil.ReadDir\<close> returns the entries sorted by file name.\<close>

definition ioutil_ReadDir :: "env \<Rightarrow> path \<Rightarrow> world \<Rightarrow> error + string list" where
  "ioutil_ReadDir E p w =
     (case fault E ''open'' p of
        Some e \<Rightarrow> Inl (PathError ''open'' p e)
      | None \<Rightarrow>
         (case walk (fs w) p of
            Inl e \<Rightarrow> Inl (PathError ''open'' p e)
          | Inr (File s) \<Rightarrow> Inl (PathError ''readdirent'' p ENOTDIR)
          | Inr (Dir es) \<Rightarrow> Inr (sort (map fst es))))"

subsection \<open>External commands\<close>

text \<open>
  \<^verbatim>\<open>exec.Command(...).Start()\<close> is entered in \<open>execs\<close> whether it succeeds or not;
  \<^verbatim>\<open>Wait()\<close> returns when the command has exited, with the tree it left.
\<close>

definition cmd_Start :: "env \<Rightarrow> string list \<Rightarrow> world \<Rightarrow> error option \<times> world" where
  "cmd_Start E argv w =
     (case proc E argv (fs w) of
        StartFailed e \<Rightarrow> (Some e, w\<lparr>execs := execs w @ [argv]\<rparr>)
      | Exited r t \<Rightarrow> (None, w\<lparr>execs := execs w @ [argv]\<rparr>))"

definition cmd_Wait :: "env \<Rightarrow> string list \<Rightarrow> world \<Rightarrow> error option \<times> world" where
  "cmd_Wait E argv w =
     (case proc E argv (fs w) of
        StartFailed e \<Rightarrow> (Some e, w)
      | Exited r t \<Rightarrow> (r, w\<lparr>fs := t\<rparr>))"

section \<open>The functions of cmd/ponzu/options.go\<close>

subsection \<open>vendorCorePackages\<close>

text \<open>The loop over \<^verbatim>\<open>dirs\<close>: the first rename that fails ends the function.\<close>

fun vendorCorePackages_dirs ::
  "env \<Rightarrow> path \<Rightarrow> path \<Rightarrow> string list \<Rightarrow> world \<Rightarrow> error option \<times> world" where
  "vendorCorePackages_dirs E path vendorPath [] w = (None, w)"
| "vendorCorePackages_dirs E path vendorPath (dir # dirs) w =
     (case os_Rename E (path @ [dir]) (vendorPath @ [dir]) w of
        (Some err, w1) \<Rightarrow> (Some err, w1)
      | (None, w1) \<Rightarrow> vendorCorePackages_dirs E path vendorPath dirs w1)"

definition vendorCorePackages :: "env \<Rightarrow> path \<Rightarrow> world \<Rightarrow> error option \<times> world" where
  "vendorCorePackages E path w =
     (let vendorPath =
            path @ [''cmd'', ''ponzu'', ''vendor'', ''github.com'', ''bosssauce'', ''ponzu'']
      in case os_MkdirAll E vendorPath w of
        (Some err, w1) \<Rightarrow> (Some err, w1)
      | (None, w1) \<Rightarrow>
         (let dirs = [''content'', ''management'', ''system'']
          in case vendorCorePackages_dirs E path vendorPath dirs w1 of
            (Some err, w2) \<Rightarrow> (Some err, w2)
          | (None, w2) \<Rightarrow>
             (let contentPath = path @ [''content'']
              in case os_Mkdir E contentPath w2 of
                (Some err, w3) \<Rightarrow> (Some err, w3)
              | (None, w3) \<Rightarrow> (None, w3))))"

subsection \<open>createProjInDir\<close>

definition ponzuRepo :: "string list" where
  "ponzuRepo = [''github.com'', ''bosssauce'', ''ponzu'']"

text \<open>
  What follows a clone that succeeded when \<open>dev\<close> is off: the vendoring, the removal
  of the \<^verbatim>\<open>.git\<close> directory (a failure is printed and otherwise ignored) and the
  closing message.
\<close>

definition createProjInDir_finish :: "env \<Rightarrow> path \<Rightarrow> world \<Rightarrow> error option \<times> world" where
  "createProjInDir_finish E path w =
     (case vendorCorePackages E path w of
        (Some err, w1) \<Rightarrow> (Some err, w1)
      | (None, w1) \<Rightarrow>
         (let gitDir = path @ [''.git'']
          in case os_RemoveAll E gitDir w1 of
            (Some err, w2) \<Rightarrow>
              (None,
               Println (''New ponzu project created at '' @ path_str path)
                 (Println ''Failed to remove .git directory from your project path. Consider removing it manually.'' w2))
          | (None, w2) \<Rightarrow>
              (None, Println (''New ponzu project created at '' @ path_str path) w2)))"

definition createProjInDir :: "env \<Rightarrow> path \<Rightarrow> world \<Rightarrow> error option \<times> world" where
  "createProjInDir E path w =
     (let gopath = GOPATH E;
          repo = ponzuRepo;
          local = gopath @ [''src''] @ repo;
          network = ''https://'' @ strings_Join repo ''/'' @ ''.git''
      in case os_MkdirAll E path w of
        (Some err, w1) \<Rightarrow> (Some err, w1)
      | (None, w1) \<Rightarrow>
         if dev E then
           (let local = (if fork E \<noteq> [] then gopath @ [''src''] @ fork E else local);
                devClone = [''git'', ''clone'', path_str local, ''--branch'', ''ponzu-dev'',
                            ''--single-branch'', path_str path]
            in case cmd_Start E devClone w1 of
              (Some err, w2) \<Rightarrow> (Some err, w2)
            | (None, w2) \<Rightarrow>
               (case cmd_Wait E devClone w2 of
                  (Some err, w3) \<Rightarrow> (Some err, w3)
                | (None, w3) \<Rightarrow>
                   (case vendorCorePackages E path w3 of
                      (Some err, w4) \<Rightarrow> (Some err, w4)
                    | (None, w4) \<Rightarrow>
                       (None,
                        Println (''Dev build cloned from '' @ path_str local @ '':ponzu-dev'') w4))))
         else
           (let localClone = [''git'', ''clone'', path_str local, path_str path]
            in case cmd_Start E localClone w1 of
              (Some err, w2) \<Rightarrow> (Some err, w2)
            | (None, w2) \<Rightarrow>
               (case cmd_Wait E localClone w2 of
                  (Some err, w3) \<Rightarrow>
                   (let w4 = Println (''Couldn't clone from '' @ path_str local @ '' . Trying network...'') w3;
                        networkClone = [''git'', ''clone'', network, path_str path]
                    in case cmd_Start E networkClone w4 of
                      (Some err, w5) \<Rightarrow>
                        (Some err,
                         Println ''Network clone failed to start. Try again and make sure you have a network connection.'' w5)
                    | (None, w5) \<Rightarrow>
                       (case cmd_Wait E networkClone w5 of
                          (Some err, w6) \<Rightarrow>
                            (Some (ErrorString
                               (''Failed to clone files from local machine ['' @ path_str local
                                @ ''] and over the network ['' @ network @ ''].\<newline>''
                                @ Error err)),
                             Println ''Network clone failure.'' w6)
                        | (None, w6) \<Rightarrow> createProjInDir_finish E path w6))
                | (None, w3) \<Rightarrow> createProjInDir_finish E path w3)))"

subsection \<open>newProjectInDir\<close>


subsection \<open>buildPonzuServer\<close>

text \<open>
  The inner loop over \<^verbatim>\<open>conflictFiles\<close>. Its \<^verbatim>\<open>continue\<close> is the last statement of
  the loop body and moves on to the next element of \<^verbatim>\<open>conflictFiles\<close>.
\<close>

fun buildPonzuServer_conflicts :: "string \<Rightarrow> string list \<Rightarrow> string list \<Rightarrow> string list" where
  "buildPonzuServer_conflicts name [] mustRenameFiles = mustRenameFiles"
| "buildPonzuServer_conflicts name (conflict # rest) mustRenameFiles =
     (if name = conflict
      then buildPonzuServer_conflicts name rest (mustRenameFiles @ [conflict])
      else buildPonzuServer_conflicts name rest mustRenameFiles)"

text \<open>The outer loop over \<^verbatim>\<open>srcFiles\<close>, lines 194 to 217.\<close>

fun buildPonzuServer_copy ::
  "env \<Rightarrow> path \<Rightarrow> path \<Rightarrow> string list \<Rightarrow> string list \<Rightarrow> string list \<Rightarrow> world
   \<Rightarrow> (error + string list) \<times> world" where
  "buildPonzuServer_copy E contentSrcPath contentDstPath conflictFiles [] mustRenameFiles w =
     (Inr mustRenameFiles, w)"
| "buildPonzuServer_copy E contentSrcPath contentDstPath conflictFiles (name # srcFiles)
     mustRenameFiles w =
     (let must = buildPonzuServer_conflicts name conflictFiles mustRenameFiles
      in case os_Create E (contentDstPath @ [name]) w of
        (Inl err, w1) \<Rightarrow> (Inl err, w1)
      | (Inr dstFile, w1) \<Rightarrow>
         (case os_Open E (contentSrcPath @ [name]) w1 of
            (Inl err, w2) \<Rightarrow> (Inl err, w2)
          | (Inr srcFile, w2) \<Rightarrow>
             (case io_Copy E dstFile srcFile w2 of
                (Some err, w3) \<Rightarrow> (Inl err, w3)
              | (None, w3) \<Rightarrow>
                 buildPonzuServer_copy E contentSrcPath contentDstPath conflictFiles srcFiles
                   must w3)))"

definition conflictFiles :: "string list" where
  "conflictFiles = [''item.go'', ''types.go'']"

definition conflictError :: error where
  "conflictError = ErrorString ''Ponzu has very few internal conflicts, sorry for the inconvenience.''"

text \<open>
  Lines 184 to 229: the content directories, the copy of every entry and the check of
  \<^verbatim>\<open>mustRenameFiles\<close>, which prints the report and returns the conflict error.
\<close>

definition buildPonzuServer_reconcile :: "env \<Rightarrow> path \<Rightarrow> world \<Rightarrow> error option \<times> world" where
  "buildPonzuServer_reconcile E pwd w =
     (let contentSrcPath = pwd @ [''content''];
          contentDstPath = pwd @ [''cmd'', ''ponzu'', ''vendor'', ''github.com'', ''bosssauce'',
                                  ''ponzu'', ''content'']
      in case ioutil_ReadDir E contentSrcPath w of
        Inl err \<Rightarrow> (Some err, w)
      | Inr srcFiles \<Rightarrow>
         (case buildPonzuServer_copy E contentSrcPath contentDstPath conflictFiles srcFiles [] w of
            (Inl err, w1) \<Rightarrow> (Some err, w1)
          | (Inr mustRenameFiles, w1) \<Rightarrow>
             if length mustRenameFiles > 1 then
               (Some conflictError,
                Println ''Once the files above have been renamed, run '$ ponzu build' to retry.''
                  (fold Println mustRenameFiles
                    (Println ''You must rename the following files, as they conflict with Ponzu core:''
                      (Println ''Some of your files in the content directory exist in the vendored directory.''
                        (Println ''Ponzu couldn't fully build your project:'' w1)))))
             else (None, w1)))"

text \<open>Lines 231 to 249: the go tool builds the two entry points.\<close>

definition buildPonzuServer_compile :: "env \<Rightarrow> path \<Rightarrow> world \<Rightarrow> error option \<times> world" where
  "buildPonzuServer_compile E pwd w =
     (let mainPath = pwd @ [''cmd'', ''ponzu'', ''main.go''];
          optsPath = pwd @ [''cmd'', ''ponzu'', ''options.go''];
          build = [''go'', ''build'', ''-o'', ''ponzu-server'', path_str mainPath, path_str optsPath]
      in case cmd_Start E build w of
        (Some err, w1) \<Rightarrow>
          (Some (ErrorString (''Ponzu build step failed. Please try again. '' @ ''\<newline>''
                              @ Error err)), w1)
      | (None, w1) \<Rightarrow>
         (case cmd_Wait E build w1 of
            (Some err, w2) \<Rightarrow>
              (Some (ErrorString (''Ponzu build step failed. Please try again. '' @ ''\<newline>''
                                  @ Error err)), w2)
          | (None, w2) \<Rightarrow> (None, w2)))"

definition buildPonzuServer :: "env \<Rightarrow> string list \<Rightarrow> world \<Rightarrow> error option \<times> world" where
  "buildPonzuServer E args w =
     (case Getwd E of
        Inl err \<Rightarrow> (Some err, w)
      | Inr pwd \<Rightarrow>
         (case buildPonzuServer_reconcile E pwd w of
            (Some err, w1) \<Rightarrow> (Some err, w1)
          | (None, w1) \<Rightarrow> buildPonzuServer_compile E pwd w1))"

section \<open>Example worlds\<close>

definition no_fault :: "string \<Rightarrow> path \<Rightarrow> errno option" where
  "no_fault op p = None"

definition proc_idle :: "string list \<Rightarrow> node \<Rightarrow> proc_result" where
  "proc_idle argv t = Exited None t"

definition demo_env :: env where
  "demo_env = \<lparr>GOPATH = [''go''], dev = False, fork = [], Getwd = Inr [''proj''],
                Scanf = Inr ''y'', fault = no_fault, proc = proc_idle\<rparr>"

definition demo_template :: node where
  "demo_template =
     Dir [(''content'', Dir [(''item.go'', File ''package content'')]),
          (''management'', Dir []),
          (''system'', Dir [(''auth.go'', File ''package system'')]),
          (''cmd'', Dir [(''ponzu'', Dir [(''main.go'', File ''package main'')])])]"

definition demo_cloned :: world where
  "demo_cloned =
     \<lparr>fs = Dir [(''go'', Dir [(''src'', Dir [(''blog'', demo_template)])])],
      stdout = [], execs = []\<rparr>"

definition proc_missing :: "string list \<Rightarrow> node \<Rightarrow> proc_result" where
  "proc_missing argv t =
     StartFailed (ErrorString (''exec: '' @ concat (take 1 argv)
                               @ '': executable file not found in $PATH''))"

definition demo_tree :: "(string \<times> node) list \<Rightarrow> (string \<times> node) list \<Rightarrow> node" where
  "demo_tree us vs =
     Dir [(''proj'',
       Dir [(''content'', Dir us),
            (''cmd'', Dir [(''ponzu'', Dir [(''vendor'', Dir [(''github.com'',
               Dir [(''bosssauce'', Dir [(''ponzu'', Dir [(''content'', Dir vs)])])])])])])])]"

definition demo_world :: "(string \<times> node) list \<Rightarrow> (string \<times> node) list \<Rightarrow> world" where
  "demo_world us vs = \<lparr>fs = demo_tree us vs, stdout = [], execs = []\<rparr>"

definition proc_exit128 :: "string list \<Rightarrow> node \<Rightarrow> proc_result" where
  "proc_exit128 argv t = Exited (Some (ErrorString ''exit status 128'')) t"



definition demo_blank :: world where
  "demo_blank = \<lparr>fs = Dir [], stdout = [], execs = []\<rparr>"

section \<open>Facts about the file tree\<close>

text \<open>
  Where \<open>put\<close>, \<open>del\<close> and \<open>mkdirAll\<close> change what \<open>walk\<close> finds: at the path they
  act on, above it, and nowhere else. Two paths are apart when neither is a prefix of the
  other.
\<close>

lemma walk_append:
  "walk n (p @ q) = (case walk n p of Inl e \<Rightarrow> Inl e | Inr m \<Rightarrow> walk m q)"
proof (induction p arbitrary: n)
  case Nil
  show ?case by simp
next
  case (Cons x p)
  show ?case
  proof (cases n)
    case (File s)
    then show ?thesis by simp
  next
    case (Dir es)
    then show ?thesis using Cons.IH by (simp split: option.splits)
  qed
qed

lemma walk_put_indep:
  "\<not> prefix p q \<Longrightarrow> \<not> prefix q p \<Longrightarrow> walk (put p v n) q = walk n q"
proof (induction p v n arbitrary: q rule: put.induct)
  case (1 v n)
  then show ?case by simp
next
  case (2 x p v s)
  then show ?case by simp
next
  case (3 x p v es)
  from "3.prems" obtain y q' where q: "q = y # q'" by (cases q) auto
  show ?case
  proof (cases "x = y")
    case False
    then show ?thesis using q
      by (simp add: update_conv' split: option.splits)
  next
    case True
    with "3.prems" q have np: "\<not> prefix p q'" "\<not> prefix q' p" by simp_all
    show ?thesis
    proof (cases "map_of es x")
      case None
      with np show ?thesis by auto
    next
      case (Some c)
      with "3.IH"[OF Some np] True q show ?thesis
        by (simp add: update_conv')
    qed
  qed
qed

lemma walk_put_anc:
  "walk n q = Inr m \<Longrightarrow> walk (put (q @ r) v n) q = Inr (put r v m)"
proof (induction q arbitrary: n)
  case Nil
  then show ?case by simp
next
  case (Cons x q)
  then show ?case
    by (cases n) (auto simp: update_conv' split: option.splits)
qed

lemma put_single: "put [x] v (Dir es) = Dir (AList.update x v es)"
  by (simp split: option.splits)

lemma walk_put_at:
  assumes "walk n q = Inr (Dir es)"
  shows "walk (put (q @ [x]) v n) (q @ [x]) = Inr v"
    and "walk (put (q @ [x]) v n) q = Inr (Dir (AList.update x v es))"
proof -
  show 2: "walk (put (q @ [x]) v n) q = Inr (Dir (AList.update x v es))"
    using walk_put_anc[OF assms, of "[x]" v] by (simp only: put_single)
  show "walk (put (q @ [x]) v n) (q @ [x]) = Inr v"
    by (simp add: walk_append[of _ q] 2 update_conv')
qed



lemma walk_del_indep:
  "\<not> prefix p q \<Longrightarrow> \<not> prefix q p \<Longrightarrow> walk (del p n) q = walk n q"
proof (induction p n arbitrary: q rule: del.induct)
  case (1 n)
  then show ?case by simp
next
  case (2 x p s)
  then show ?case by simp
next
  case (3 x p es)
  from "3.prems" obtain y q' where q: "q = y # q'" by (cases q) auto
  show ?case
  proof (cases "x = y")
    case False
    then show ?thesis using q
      by (simp add: update_conv' delete_conv' split: option.splits)
  next
    case True
    with "3.prems" q have np: "\<not> prefix p q'" "\<not> prefix q' p" by simp_all
    then have pne: "p \<noteq> []" by auto
    show ?thesis
    proof (cases "map_of es x")
      case None
      with np pne show ?thesis by auto
    next
      case (Some c)
      with "3.IH"[OF pne Some np] True q pne show ?thesis
        by (simp add: update_conv')
    qed
  qed
qed

lemma walk_del_anc:
  "walk n q = Inr m \<Longrightarrow> r \<noteq> [] \<Longrightarrow> walk (del (q @ r) n) q = Inr (del r m)"
proof (induction q arbitrary: n)
  case Nil
  then show ?case by simp
next
  case (Cons x q)
  then show ?case
    by (cases n) (auto simp: update_conv' split: option.splits)
qed

lemma walk_del_at:
  assumes "walk n (q @ [x]) = Inr m"
  shows "walk (del (q @ [x]) n) (q @ [x]) = Inl ENOENT"
proof -
  from assms obtain es where q: "walk n q = Inr (Dir es)"
    by (cases "walk n q"; cases "projr (walk n q)") (auto simp: walk_append)
  have "walk (del (q @ [x]) n) q = Inr (del [x] (Dir es))"
    using walk_del_anc[OF q, of "[x]"] by simp
  then show ?thesis
    by (simp add: walk_append[of _ q] delete_conv')
qed

lemma walk_mkdirAll_indep:
  "mkdirAll p n = Inr n' \<Longrightarrow> \<not> prefix q p \<Longrightarrow> walk n' q = walk n q"
proof (induction p n arbitrary: n' q rule: mkdirAll.induct)
  case (1 p s)
  then show ?case by simp
next
  case (2 es)
  then show ?case by simp
next
  case (3 x p es)
  from "3.prems"(2) obtain y q' where q: "q = y # q'" by (cases q) auto
  from "3.prems"(1) obtain c where
    c: "mkdirAll p (case map_of es x of None \<Rightarrow> Dir [] | Some c \<Rightarrow> c) = Inr c"
    and n': "n' = Dir (AList.update x c es)"
    by (auto split: sum.splits)
  show ?case
  proof (cases "x = y")
    case False
    then show ?thesis using q n' by (simp add: update_conv')
  next
    case True
    with "3.prems"(2) q have np: "\<not> prefix q' p" by simp
    from np obtain z q'' where q': "q' = z # q''" by (cases q') auto
    from "3.IH"[OF c np] show ?thesis using True q n' q'
      by (auto simp: update_conv' split: option.splits)
  qed
qed

text \<open>What the system calls of the vendoring leave behind when they succeed.\<close>

lemma del_Dir: "r \<noteq> [] \<Longrightarrow> \<exists>es'. del r (Dir es) = Dir es'"
  by (cases r) (auto split: option.splits)

lemma walk_del_keeps_dir:
  assumes "walk n q = Inr (Dir es)" "\<not> prefix p q"
  shows "\<exists>es'. walk (del p n) q = Inr (Dir es')"
proof (cases "prefix q p")
  case True
  then obtain r where p: "p = q @ r" by (auto simp: prefix_def)
  with assms(2) have "r \<noteq> []" by auto
  then show ?thesis
    using walk_del_anc[OF assms(1), of r] del_Dir[of r es] p by auto
next
  case False
  with assms show ?thesis by (simp add: walk_del_indep)
qed

lemma os_Rename_moves:
  assumes ok: "os_Rename E old new w = (None, w')"
    and ne: "old \<noteq> new" and np: "\<not> prefix new old"
  shows "(\<exists>src. walk (fs w) old = Inr src \<and> walk (fs w') new = Inr src)
       \<and> walk (fs w') old = Inl ENOENT
       \<and> (\<forall>q. \<not> prefix old q \<and> \<not> prefix q old \<and> \<not> prefix new q \<and> \<not> prefix q new
              \<longrightarrow> walk (fs w') q = walk (fs w) q)
       \<and> stdout w' = stdout w \<and> execs w' = execs w"
proof -
  from ok ne obtain src ps where
    src: "walk (fs w) old = Inr src"
    and po: "\<not> prefix old new"
    and par: "walk (fs w) (butlast new) = Inr (Dir ps)"
    and w': "w' = w\<lparr>fs := put new src (del old (fs w))\<rparr>"
    by (auto simp: os_Rename_def Let_def
             split: option.splits sum.splits node.splits list.splits if_splits)
  from np have new: "new = butlast new @ [last new]" by (cases new) auto
  from po have old: "old = butlast old @ [last old]" by (cases old) auto
  have "\<not> prefix old (butlast new)"
    using po new by (metis prefix_prefix)
  from walk_del_keeps_dir[OF par this] obtain ps' where
    par': "walk (del old (fs w)) (butlast new) = Inr (Dir ps')" by blast
  have a: "walk (fs w') new = Inr src"
    using walk_put_at(1)[OF par', of "last new" src] new w' by simp
  have "walk (fs w') old = walk (del old (fs w)) old"
    using w' np po by (simp add: walk_put_indep)
  also have "\<dots> = Inl ENOENT"
    using walk_del_at[of "fs w" "butlast old" "last old" src] src old by simp
  finally have b: "walk (fs w') old = Inl ENOENT" .
  have c: "\<forall>q. \<not> prefix old q \<and> \<not> prefix q old \<and> \<not> prefix new q \<and> \<not> prefix q new
              \<longrightarrow> walk (fs w') q = walk (fs w) q"
    using w' by (simp add: walk_put_indep walk_del_indep)
  show ?thesis using src a b c w' by simp
qed

lemma os_MkdirAll_frame:
  assumes "os_MkdirAll E p w = (None, w')"
  shows "(\<forall>q. \<not> prefix q p \<longrightarrow> walk (fs w') q = walk (fs w) q)
       \<and> stdout w' = stdout w \<and> execs w' = execs w"
  using assms
  by (auto simp: os_MkdirAll_def walk_mkdirAll_indep split: option.splits sum.splits)

lemma os_Mkdir_makes:
  assumes "os_Mkdir E p w = (None, w')"
  shows "walk (fs w') p = Inr (Dir [])
       \<and> (\<forall>q. \<not> prefix p q \<and> \<not> prefix q p \<longrightarrow> walk (fs w') q = walk (fs w) q)
       \<and> stdout w' = stdout w \<and> execs w' = execs w"
proof -
  from assms obtain es where
    p: "p \<noteq> []" and par: "walk (fs w) (butlast p) = Inr (Dir es)"
    and w': "w' = w\<lparr>fs := put p (Dir []) (fs w)\<rparr>"
    by (auto simp: os_Mkdir_def split: option.splits sum.splits node.splits if_splits)
  from p have pp: "p = butlast p @ [last p]" by simp
  have "walk (fs w') p = Inr (Dir [])"
    using walk_put_at(1)[OF par, of "last p" "Dir []"] pp w' by simp
  then show ?thesis using w' by (simp add: walk_put_indep)
qed

section \<open>Vendoring\<close>

text \<open>
  Claim C7. When \<^verbatim>\<open>vendorCorePackages\<close> returns no error on a project path, each of
  \<^verbatim>\<open>content\<close>, \<^verbatim>\<open>management\<close> and \<^verbatim>\<open>system\<close> was present under the project and
  is now, as the same node (the same name and the same tree below it), under
  \<^verbatim>\<open>cmd/ponzu/vendor/github.com/bosssauce/ponzu\<close> of the project; \<^verbatim>\<open>management\<close> and
  \<^verbatim>\<open>system\<close> are gone from the project root, and \<^verbatim>\<open>content\<close> at the project root is a
  new, empty directory.
\<close>

theorem vendorCorePackages_relocates:
  assumes ok: "vendorCorePackages E path w = (None, w')"
  shows "(\<forall>d \<in> set [''content'', ''management'', ''system''].
            \<exists>n. walk (fs w) (path @ [d]) = Inr n
              \<and> walk (fs w') (path @ [''cmd'', ''ponzu'', ''vendor'', ''github.com'',
                                        ''bosssauce'', ''ponzu'', d]) = Inr n)
       \<and> walk (fs w') (path @ [''management'']) = Inl ENOENT
       \<and> walk (fs w') (path @ [''system'']) = Inl ENOENT
       \<and> walk (fs w') (path @ [''content'']) = Inr (Dir [])"
proof -
  let ?V = "path @ [''cmd'', ''ponzu'', ''vendor'', ''github.com'', ''bosssauce'', ''ponzu'']"
  from ok obtain w1 w2 w3 w4 where
    s0: "os_MkdirAll E ?V w = (None, w1)"
    and s1: "os_Rename E (path @ [''content'']) (?V @ [''content'']) w1 = (None, w2)"
    and s2: "os_Rename E (path @ [''management'']) (?V @ [''management'']) w2 = (None, w3)"
    and s3: "os_Rename E (path @ [''system'']) (?V @ [''system'']) w3 = (None, w4)"
    and s4: "os_Mkdir E (path @ [''content'']) w4 = (None, w')"
    by (auto simp: vendorCorePackages_def Let_def split: prod.splits option.splits)
  note f0 = os_MkdirAll_frame[OF s0]
  note r1 = os_Rename_moves[OF s1]
  note r2 = os_Rename_moves[OF s2]
  note r3 = os_Rename_moves[OF s3]
  note m4 = os_Mkdir_makes[OF s4]
  from r1 obtain n1 where n1: "walk (fs w1) (path @ [''content'']) = Inr n1"
    "walk (fs w2) (?V @ [''content'']) = Inr n1" by auto
  from r2 obtain n2 where n2: "walk (fs w2) (path @ [''management'']) = Inr n2"
    "walk (fs w3) (?V @ [''management'']) = Inr n2" by auto
  from r3 obtain n3 where n3: "walk (fs w3) (path @ [''system'']) = Inr n3"
    "walk (fs w4) (?V @ [''system'']) = Inr n3" by auto
  have c0: "walk (fs w) (path @ [''content'']) = Inr n1"
    using f0 n1(1) by simp
  have c1: "walk (fs w') (?V @ [''content'']) = Inr n1"
    using n1(2) r2 r3 m4 by simp
  have m0: "walk (fs w) (path @ [''management'']) = Inr n2"
    using f0 r1 n2(1) by simp
  have m1: "walk (fs w') (?V @ [''management'']) = Inr n2"
    using n2(2) r3 m4 by simp
  have y0: "walk (fs w) (path @ [''system'']) = Inr n3"
    using f0 r1 r2 n3(1) by simp
  have y1: "walk (fs w') (?V @ [''system'']) = Inr n3"
    using n3(2) m4 by simp
  have gm: "walk (fs w') (path @ [''management'']) = Inl ENOENT"
    using r2 r3 m4 by simp
  have gs: "walk (fs w') (path @ [''system'']) = Inl ENOENT"
    using r3 m4 by simp
  have gc: "walk (fs w') (path @ [''content'']) = Inr (Dir [])"
    using m4 by simp
  show ?thesis using c0 c1 m0 m1 y0 y1 gm gs gc by simp
qed

theorem vendorCorePackages_relocates_witness:
  "fst (vendorCorePackages demo_env [''go'', ''src'', ''blog''] demo_cloned) = None
   \<and> walk (fs (snd (vendorCorePackages demo_env [''go'', ''src'', ''blog''] demo_cloned)))
        [''go'', ''src'', ''blog'', ''cmd'', ''ponzu'', ''vendor'', ''github.com'', ''bosssauce'',
         ''ponzu'', ''system'']
      = Inr (Dir [(''auth.go'', File ''package system'')])
   \<and> walk (fs (snd (vendorCorePackages demo_env [''go'', ''src'', ''blog''] demo_cloned)))
        [''go'', ''src'', ''blog'', ''system''] = Inl ENOENT
   \<and> walk (fs (snd (vendorCorePackages demo_env [''go'', ''src'', ''blog''] demo_cloned)))
        [''go'', ''src'', ''blog'', ''content''] = Inr (Dir [])"
proof -
  obtain r w' where rw: "vendorCorePackages demo_env [''go'', ''src'', ''blog''] demo_cloned = (r, w')"
    by (cases "vendorCorePackages demo_env [''go'', ''src'', ''blog''] demo_cloned")
  have r: "r = None"
    using rw
    by (simp add: vendorCorePackages_def os_MkdirAll_def os_Rename_def os_Mkdir_def demo_env_def
          demo_cloned_def demo_template_def no_fault_def Let_def)
  have "walk (fs demo_cloned) [''go'', ''src'', ''blog'', ''system'']
        = Inr (Dir [(''auth.go'', File ''package system'')])"
    by (simp add: demo_cloned_def demo_template_def)
  with vendorCorePackages_relocates[OF rw[unfolded r]] rw r show ?thesis
    by simp
qed

section \<open>The copy loop of buildPonzuServer\<close>











section \<open>Reconciling user content\<close>










text \<open>
  Claim C1 says that a user file under a protected name is not copied. The code copies
  it: the \<^verbatim>\<open>continue\<close> that should skip the file sits in the inner loop, so the
  outer loop goes on to \<^verbatim>\<open>os.Create\<close> and \<^verbatim>\<open>io.Copy\<close> for every entry. On a
  project whose user directory holds \<^verbatim>\<open>foo.txt\<close> and \<^verbatim>\<open>item.go\<close>, the framework's
  \<^verbatim>\<open>item.go\<close> in the vendored content directory is replaced by the user's.
\<close>

theorem protected_file_is_overwritten:
  "walk (fs (demo_world [(''foo.txt'', File ''notes''), (''item.go'', File ''mine'')]
                        [(''item.go'', File ''core''), (''types.go'', File ''core'')]))
     [''proj'', ''cmd'', ''ponzu'', ''vendor'', ''github.com'', ''bosssauce'', ''ponzu'', ''content'',
      ''item.go'']
   = Inr (File ''core'')
   \<and> walk (fs (snd (buildPonzuServer demo_env []
        (demo_world [(''foo.txt'', File ''notes''), (''item.go'', File ''mine'')]
                    [(''item.go'', File ''core''), (''types.go'', File ''core'')]))))
     [''proj'', ''cmd'', ''ponzu'', ''vendor'', ''github.com'', ''bosssauce'', ''ponzu'', ''content'',
      ''item.go'']
   = Inr (File ''mine'')"
  by (simp add: buildPonzuServer_def buildPonzuServer_reconcile_def buildPonzuServer_compile_def
        cmd_Start_def cmd_Wait_def proc_idle_def ioutil_ReadDir_def
        os_Create_def os_Open_def io_Copy_def demo_env_def no_fault_def demo_world_def
        demo_tree_def conflictFiles_def Println_def Let_def)

text \<open>
  Claim C2 says that one colliding name is enough for the conflict error. The code
  tests \<^verbatim>\<open>len(mustRenameFiles) > 1\<close>: with \<^verbatim>\<open>foo.txt\<close> and \<^verbatim>\<open>item.go\<close> in the
  user directory the list is \<^verbatim>\<open>["item.go"]\<close>, no error is returned and the go tool
  is run.
\<close>

theorem single_conflict_is_built:
  "fst (buildPonzuServer_copy demo_env [''proj'', ''content'']
         [''proj'', ''cmd'', ''ponzu'', ''vendor'', ''github.com'', ''bosssauce'', ''ponzu'', ''content'']
         conflictFiles [''foo.txt'', ''item.go''] []
         (demo_world [(''foo.txt'', File ''notes''), (''item.go'', File ''mine'')] []))
   = Inr [''item.go'']
   \<and> fst (buildPonzuServer demo_env []
         (demo_world [(''foo.txt'', File ''notes''), (''item.go'', File ''mine'')] []))
   = None
   \<and> execs (snd (buildPonzuServer demo_env []
         (demo_world [(''foo.txt'', File ''notes''), (''item.go'', File ''mine'')] [])))
   = [ [''go'', ''build'', ''-o'', ''ponzu-server'', ''/proj/cmd/ponzu/main.go'',
       ''/proj/cmd/ponzu/options.go'']]"
  by (simp add: buildPonzuServer_def buildPonzuServer_reconcile_def buildPonzuServer_compile_def
        cmd_Start_def cmd_Wait_def proc_idle_def ioutil_ReadDir_def path_str_def
        os_Create_def os_Open_def io_Copy_def demo_env_def no_fault_def demo_world_def
        demo_tree_def conflictFiles_def Println_def Let_def)

section \<open>Compiling\<close>

text \<open>
  Claim C9. Once the copy pass has returned no error, \<^verbatim>\<open>buildPonzuServer\<close> returns
  no error only if the go tool was started and exited without one. When the tool cannot
  be started, and when it exits with an error, the function returns the error whose text
  is \<^verbatim>\<open>Ponzu build step failed. Please try again.\<close>, a line break and the text of the
  underlying error; every error returned at this stage contains
  \<^verbatim>\<open>build step failed\<close>.
\<close>

theorem build_failure_is_reported:
  assumes g: "Getwd E = Inr pwd"
    and r: "buildPonzuServer_reconcile E pwd w = (None, w1)"
  shows "(fst (buildPonzuServer E args w) = None \<longleftrightarrow>
            (\<exists>t. proc E [''go'', ''build'', ''-o'', ''ponzu-server'',
                          path_str (pwd @ [''cmd'', ''ponzu'', ''main.go'']),
                          path_str (pwd @ [''cmd'', ''ponzu'', ''options.go''])] (fs w1)
                 = Exited None t))
       \<and> (\<forall>e. proc E [''go'', ''build'', ''-o'', ''ponzu-server'',
                        path_str (pwd @ [''cmd'', ''ponzu'', ''main.go'']),
                        path_str (pwd @ [''cmd'', ''ponzu'', ''options.go''])] (fs w1)
                = StartFailed e
              \<longrightarrow> fst (buildPonzuServer E args w)
                  = Some (ErrorString (''Ponzu build step failed. Please try again. '' @ ''\<newline>''
                                       @ Error e)))
       \<and> (\<forall>e t. proc E [''go'', ''build'', ''-o'', ''ponzu-server'',
                        path_str (pwd @ [''cmd'', ''ponzu'', ''main.go'']),
                        path_str (pwd @ [''cmd'', ''ponzu'', ''options.go''])] (fs w1)
                = Exited (Some e) t
              \<longrightarrow> fst (buildPonzuServer E args w)
                  = Some (ErrorString (''Ponzu build step failed. Please try again. '' @ ''\<newline>''
                                       @ Error e)))
       \<and> (\<forall>err. fst (buildPonzuServer E args w) = Some err
              \<longrightarrow> sublist ''build step failed'' (Error err))"
proof -
  let ?build = "[''go'', ''build'', ''-o'', ''ponzu-server'',
                 path_str (pwd @ [''cmd'', ''ponzu'', ''main.go'']),
                 path_str (pwd @ [''cmd'', ''ponzu'', ''options.go''])]"
  have b: "buildPonzuServer E args w = buildPonzuServer_compile E pwd w1"
    using g r by (simp add: buildPonzuServer_def)
  have ph: "sublist ''build step failed''
              (''Ponzu build step failed. Please try again. '' @ ''\<newline>'' @ x)" for x
    using sublist_appendI[of "''build step failed''" "''Ponzu ''"
            "''. Please try again. '' @ ''\<newline>'' @ x"]
    by simp
  show ?thesis
  proof (cases "proc E ?build (fs w1)")
    case (StartFailed e)
    then show ?thesis using ph
      by (simp add: b buildPonzuServer_compile_def cmd_Start_def cmd_Wait_def Let_def)
  next
    case (Exited x t)
    then show ?thesis using ph
      by (cases x) (simp_all add: b buildPonzuServer_compile_def cmd_Start_def cmd_Wait_def Let_def)
  qed
qed

theorem build_failure_is_reported_witness:
  "fst (buildPonzuServer (demo_env\<lparr>proc := proc_missing\<rparr>) []
         (demo_world [(''post.go'', File ''package content'')] [(''item.go'', File ''core'')]))
   = Some (ErrorString (''Ponzu build step failed. Please try again. '' @ ''\<newline>''
        @ ''exec: go: executable file not found in $PATH''))"
proof -
  let ?E = "demo_env\<lparr>proc := proc_missing\<rparr>"
  let ?w = "demo_world [(''post.go'', File ''package content'')] [(''item.go'', File ''core'')]"
  obtain r w1 where rw: "buildPonzuServer_reconcile ?E [''proj''] ?w = (r, w1)"
    by (cases "buildPonzuServer_reconcile ?E [''proj''] ?w")
  have r: "r = None"
    using rw
    by (simp add: buildPonzuServer_reconcile_def ioutil_ReadDir_def
          os_Create_def os_Open_def io_Copy_def demo_env_def no_fault_def demo_world_def
          demo_tree_def conflictFiles_def Let_def)
  have g: "Getwd ?E = Inr [''proj'']" by (simp add: demo_env_def)
  have p: "proc ?E (''go'' # argv) t
           = StartFailed (ErrorString ''exec: go: executable file not found in $PATH'')"
    for argv t by (simp add: proc_missing_def)
  from build_failure_is_reported[OF g rw[unfolded r], of "[]"] p show ?thesis
    by simp
qed

section \<open>Fetching the sources\<close>

text \<open>No system call starts a command: only \<open>cmd_Start\<close> adds to \<open>execs\<close>.\<close>

lemma os_MkdirAll_execs: "execs (snd (os_MkdirAll E p w)) = execs w"
  by (simp add: os_MkdirAll_def split: option.splits sum.splits)

lemma os_Mkdir_execs: "execs (snd (os_Mkdir E p w)) = execs w"
  by (simp add: os_Mkdir_def split: option.splits sum.splits node.splits)

lemma os_Rename_execs: "execs (snd (os_Rename E old new w)) = execs w"
  by (simp add: os_Rename_def Let_def split: option.splits sum.splits node.splits list.splits)


lemma vendorCorePackages_dirs_execs:
  "execs (snd (vendorCorePackages_dirs E path v dirs w)) = execs w"
proof (induction dirs arbitrary: w)
  case Nil
  show ?case by simp
next
  case (Cons d dirs)
  obtain r w1 where s: "os_Rename E (path @ [d]) (v @ [d]) w = (r, w1)"
    by (cases "os_Rename E (path @ [d]) (v @ [d]) w")
  with os_Rename_execs[of E "path @ [d]" "v @ [d]" w] have "execs w1 = execs w" by simp
  with s Cons.IH[of w1] show ?case by (cases r) simp_all
qed

lemma vendorCorePackages_execs: "execs (snd (vendorCorePackages E path w)) = execs w"
proof -
  let ?V = "path @ [''cmd'', ''ponzu'', ''vendor'', ''github.com'', ''bosssauce'', ''ponzu'']"
  obtain r1 w1 where a: "os_MkdirAll E ?V w = (r1, w1)" by (cases "os_MkdirAll E ?V w")
  obtain r2 w2 where b: "vendorCorePackages_dirs E path ?V [''content'', ''management'', ''system''] w1
      = (r2, w2)"
    by (cases "vendorCorePackages_dirs E path ?V [''content'', ''management'', ''system''] w1")
  obtain r3 w3 where c: "os_Mkdir E (path @ [''content'']) w2 = (r3, w3)"
    by (cases "os_Mkdir E (path @ [''content'']) w2")
  have "execs w1 = execs w" using os_MkdirAll_execs[of E ?V w] a by simp
  moreover have "execs w2 = execs w1"
    using vendorCorePackages_dirs_execs[of E path ?V "[''content'', ''management'', ''system'']" w1] b
    by (simp del: vendorCorePackages_dirs.simps)
  moreover have "execs w3 = execs w2" using os_Mkdir_execs[of E "path @ [''content'']" w2] c by simp
  ultimately show ?thesis using a b c
    by (cases r1; cases r2; cases r3)
       (simp_all add: vendorCorePackages_def Let_def del: vendorCorePackages_dirs.simps)
qed


lemma createProjInDir_dev:
  assumes "dev E" "os_MkdirAll E path w = (None, w1)"
    and "loc = (if fork E \<noteq> [] then GOPATH E @ [''src''] @ fork E
                else GOPATH E @ [''src''] @ ponzuRepo)"
    and "devClone = [''git'', ''clone'', path_str loc, ''--branch'', ''ponzu-dev'',
                     ''--single-branch'', path_str path]"
  shows "createProjInDir E path w =
     (case cmd_Start E devClone w1 of
        (Some err, w2) \<Rightarrow> (Some err, w2)
      | (None, w2) \<Rightarrow>
         (case cmd_Wait E devClone w2 of
            (Some err, w3) \<Rightarrow> (Some err, w3)
          | (None, w3) \<Rightarrow>
             (case vendorCorePackages E path w3 of
                (Some err, w4) \<Rightarrow> (Some err, w4)
              | (None, w4) \<Rightarrow>
                 (None, Println (''Dev build cloned from '' @ path_str loc @ '':ponzu-dev'') w4))))"
  unfolding createProjInDir_def Let_def assms(3,4)
  by (simp only: assms(1,2) prod.case option.case if_True)

text \<open>
  Claim C5. With \<^verbatim>\<open>dev\<close> set and the project directory created, exactly one command
  is ever started: \<^verbatim>\<open>git clone <local> --branch ponzu-dev --single-branch <path>\<close>,
  where \<^verbatim>\<open><local>\<close> is \<^verbatim>\<open>$GOPATH/src/github.com/bosssauce/ponzu\<close> when \<^verbatim>\<open>fork\<close>
  is empty and \<^verbatim>\<open>$GOPATH/src/<fork>\<close> otherwise. When that command cannot be started
  or exits with an error, the error is what \<^verbatim>\<open>createProjInDir\<close> returns; no clone
  over the network is tried. When it succeeds the function goes on to the vendoring.
\<close>

theorem dev_clone_has_no_fallback:
  assumes d: "dev E"
    and l: "local = (if fork E = [] then GOPATH E @ [''src'', ''github.com'', ''bosssauce'', ''ponzu'']
                     else GOPATH E @ [''src''] @ fork E)"
    and c: "devClone = [''git'', ''clone'', path_str local, ''--branch'', ''ponzu-dev'',
                        ''--single-branch'', path_str path]"
    and m: "os_MkdirAll E path w = (None, w1)"
  shows "execs (snd (createProjInDir E path w)) = execs w @ [devClone]
       \<and> (\<forall>e. proc E devClone (fs w1) = StartFailed e
              \<longrightarrow> fst (createProjInDir E path w) = Some e)
       \<and> (\<forall>e t. proc E devClone (fs w1) = Exited (Some e) t
              \<longrightarrow> fst (createProjInDir E path w) = Some e)
       \<and> (\<forall>t. proc E devClone (fs w1) = Exited None t
              \<longrightarrow> fst (createProjInDir E path w)
                  = fst (vendorCorePackages E path (w1\<lparr>execs := execs w1 @ [devClone], fs := t\<rparr>)))"
proof -
  have e1: "execs w1 = execs w" using os_MkdirAll_execs[of E path w] m by simp
  have l': "local = (if fork E \<noteq> [] then GOPATH E @ [''src''] @ fork E
                     else GOPATH E @ [''src''] @ ponzuRepo)"
    using l by (simp add: ponzuRepo_def)
  note cp = createProjInDir_dev[OF d m l' c]
  show ?thesis
  proof (cases "proc E devClone (fs w1)")
    case (StartFailed e)
    then show ?thesis using e1
      by (simp add: cp cmd_Start_def)
  next
    case (Exited x t)
    show ?thesis
    proof (cases x)
      case (Some e)
      with Exited show ?thesis using e1
        by (simp add: cp cmd_Start_def cmd_Wait_def)
    next
      case None
      let ?v = "w1\<lparr>execs := execs w1 @ [devClone], fs := t\<rparr>"
      obtain r v' where v: "vendorCorePackages E path ?v = (r, v')"
        by (cases "vendorCorePackages E path ?v")
      have "execs v' = execs ?v" using vendorCorePackages_execs[of E path ?v] v by simp
      with None Exited v show ?thesis using e1
        by (cases r) (simp_all add: cp cmd_Start_def cmd_Wait_def Println_def)
    qed
  qed
qed

theorem dev_clone_has_no_fallback_witness:
  "execs (snd (createProjInDir (demo_env\<lparr>dev := True, proc := proc_exit128\<rparr>)
                [''go'', ''src'', ''blog''] demo_blank))
   = [ [''git'', ''clone'', ''/go/src/github.com/bosssauce/ponzu'', ''--branch'', ''ponzu-dev'',
       ''--single-branch'', ''/go/src/blog'']]
   \<and> fst (createProjInDir (demo_env\<lparr>dev := True, proc := proc_exit128\<rparr>)
                [''go'', ''src'', ''blog''] demo_blank)
   = Some (ErrorString ''exit status 128'')
   \<and> execs (snd (createProjInDir
                (demo_env\<lparr>dev := True, fork := [''github.com'', ''me'', ''ponzu''],
                           proc := proc_missing\<rparr>)
                [''go'', ''src'', ''blog''] demo_blank))
   = [ [''git'', ''clone'', ''/go/src/github.com/me/ponzu'', ''--branch'', ''ponzu-dev'',
       ''--single-branch'', ''/go/src/blog'']]
   \<and> fst (createProjInDir
                (demo_env\<lparr>dev := True, fork := [''github.com'', ''me'', ''ponzu''],
                           proc := proc_missing\<rparr>)
                [''go'', ''src'', ''blog''] demo_blank)
   = Some (ErrorString ''exec: git: executable file not found in $PATH'')"
proof -
  let ?E1 = "demo_env\<lparr>dev := True, proc := proc_exit128\<rparr>"
  let ?E2 = "demo_env\<lparr>dev := True, fork := [''github.com'', ''me'', ''ponzu''],
                        proc := proc_missing\<rparr>"
  let ?w1 = "demo_blank\<lparr>fs := Dir [(''go'', Dir [(''src'', Dir [(''blog'', Dir [])])])]\<rparr>"
  have m1: "os_MkdirAll ?E1 [''go'', ''src'', ''blog''] demo_blank = (None, ?w1)"
    by (simp add: os_MkdirAll_def demo_env_def no_fault_def demo_blank_def)
  have m2: "os_MkdirAll ?E2 [''go'', ''src'', ''blog''] demo_blank = (None, ?w1)"
    by (simp add: os_MkdirAll_def demo_env_def no_fault_def demo_blank_def)
  have a: "dev ?E1" "dev ?E2" by (simp_all add: demo_env_def)
  from dev_clone_has_no_fallback[OF a(1) refl refl m1]
       dev_clone_has_no_fallback[OF a(2) refl refl m2]
  show ?thesis
    by (simp add: demo_env_def demo_blank_def proc_exit128_def proc_missing_def path_str_def)
qed










section \<open>Overwriting an existing project\<close>





end
